theory Spec2Isabelle
  imports Complex_Main "HOL-Library.Sublist"
begin

section \<open>Data model\<close>

text \<open>
  The development embeds the query pipeline of \<^verbatim>\<open>core/rag_system.py\<close> and the
  counters of \<^verbatim>\<open>core/performance_monitor.py\<close>.

  Conventions of the embedding.
  \<^item> A Python \<^verbatim>\<open>str\<close> is the list of its code points; \<^typ>\<open>char\<close> covers the code
    points below 256, so \<^typ>\<open>string\<close> stands for the Latin-1 part of \<^verbatim>\<open>str\<close>.
  \<^item> A Python \<^verbatim>\<open>float\<close> is an exact rational (\<^typ>\<open>rat\<close>): sums, quotients and
    \<^verbatim>\<open>min\<close> are computed without binary rounding error.
  \<^item> \<^verbatim>\<open>time.time()\<close> reads are rationals (seconds); \<^verbatim>\<open>datetime.now()\<close> reads are
    integers (microseconds since the epoch, the resolution of \<^verbatim>\<open>datetime\<close>).
  \<^item> A raised exception is a value of \<open>exn\<close>, carried in the left summand of a sum.
\<close>

datatype exn = Exception string

record 'm document =
  page_content :: string
  metadata :: 'm

section \<open>String operations used by the pipeline\<close>

text \<open>\<^verbatim>\<open>str.lower()\<close> on code points below 256: A-Z and the Latin-1 capitals
  (0xC0-0xDE without the multiplication sign 0xD7) move up by 32.\<close>

definition char_lower :: "char \<Rightarrow> char" where
  "char_lower c =
     (let n = (of_char c :: nat)
      in if (65 \<le> n \<and> n \<le> 90) \<or> (192 \<le> n \<and> n \<le> 222 \<and> n \<noteq> 215)
         then char_of (n + 32) else c)"

definition lower :: "string \<Rightarrow> string" where
  "lower s = map char_lower s"

text \<open>\<^verbatim>\<open>kw in s\<close> on strings: \<open>kw\<close> occurs in \<open>s\<close> as a contiguous block.\<close>

fun str_in :: "string \<Rightarrow> string \<Rightarrow> bool" where
  "str_in kw [] = (kw = [])"
| "str_in kw (c # cs) = (prefix kw (c # cs) \<or> str_in kw cs)"

text \<open>\<^verbatim>\<open>sep.join(parts)\<close>.\<close>

fun join :: "string \<Rightarrow> string list \<Rightarrow> string" where
  "join sep [] = []"
| "join sep [p] = p"
| "join sep (p # q # ps) = p @ sep @ join sep (q # ps)"

text \<open>\<^verbatim>\<open>str(n)\<close> for a non-negative integer: its decimal digits.\<close>

definition digit_char :: "nat \<Rightarrow> char" where
  "digit_char d = char_of (48 + d)"

fun str_nat :: "nat \<Rightarrow> string" where
  "str_nat n = (if n < 10 then [digit_char n] else str_nat (n div 10) @ [digit_char (n mod 10)])"

declare str_nat.simps [simp del]

text \<open>The number a string of decimal digits denotes.\<close>

definition decimal_value :: "string \<Rightarrow> nat" where
  "decimal_value s = foldl (\<lambda>a c. 10 * a + (of_char c - 48)) 0 s"

section \<open>Confidence scorer\<close>

text \<open>
  \<^verbatim>\<open>round(x, 2)\<close> of Python 3 rounds to the nearest multiple of 1/100 and resolves a
  tie towards the even last digit.
\<close>

definition round_half_even :: "rat \<Rightarrow> int" where
  "round_half_even y =
     (let n = \<lfloor>y\<rfloor>; r = y - of_int n
      in if r < 1 / 2 then n
         else if 1 / 2 < r then n + 1
         else if even n then n else n + 1)"

definition py_round2 :: "rat \<Rightarrow> rat" where
  "py_round2 x = of_int (round_half_even (x * 100)) / 100"

definition compliance_keywords :: "string list" where
  "compliance_keywords =
     [''gst'', ''tax'', ''return'', ''filing'', ''deadline'', ''penalty'', ''rate'']"

text \<open>The inner loop of \<^verbatim>\<open>_calculate_confidence\<close>: one pass over the keywords for a
  fixed document, threading \<^verbatim>\<open>keyword_bonus\<close>.\<close>

fun keyword_loop :: "string \<Rightarrow> string \<Rightarrow> string list \<Rightarrow> rat \<Rightarrow> rat" where
  "keyword_loop question_lower doc_lower [] keyword_bonus = keyword_bonus"
| "keyword_loop question_lower doc_lower (keyword # kws) keyword_bonus =
     keyword_loop question_lower doc_lower kws
       (if str_in keyword question_lower \<and> str_in keyword doc_lower
        then keyword_bonus + 1 / 10 else keyword_bonus)"

text \<open>The outer loop over the documents.\<close>

fun document_loop :: "string \<Rightarrow> ('m, 'z) document_scheme list \<Rightarrow> rat \<Rightarrow> rat" where
  "document_loop question_lower [] keyword_bonus = keyword_bonus"
| "document_loop question_lower (doc # docs) keyword_bonus =
     document_loop question_lower docs
       (keyword_loop question_lower (lower (page_content doc)) compliance_keywords
          keyword_bonus)"

definition calculate_confidence :: "('m, 'z) document_scheme list \<Rightarrow> string \<Rightarrow> rat" where
  "calculate_confidence documents question =
     (if documents = [] then 0
      else
        let base_confidence = min (of_nat (length documents) / 3) 1;
            question_lower = lower question;
            keyword_bonus = document_loop question_lower documents 0;
            confidence = min (base_confidence + keyword_bonus) 1
        in py_round2 confidence)"

text \<open>The (item, keyword) pairs the specification counts: the keyword occurs in the
  lower-cased question and in the lower-cased text of the item.\<close>

definition matching_pairs ::
  "('m, 'z) document_scheme list \<Rightarrow> string \<Rightarrow> (('m, 'z) document_scheme \<times> string) list" where
  "matching_pairs documents question =
     filter (\<lambda>(doc, keyword). str_in keyword (lower question)
                              \<and> str_in keyword (lower (page_content doc)))
       (List.product documents compliance_keywords)"

section \<open>Context assembly and the templated answer\<close>

text \<open>The loop of \<^verbatim>\<open>_prepare_context\<close>: \<^verbatim>\<open>enumerate\<close> supplies the index \<open>i\<close>, every
  pass appends one labelled part to \<^verbatim>\<open>context_parts\<close>.\<close>

fun context_loop :: "nat \<Rightarrow> ('m, 'z) document_scheme list \<Rightarrow> string list \<Rightarrow> string list" where
  "context_loop i [] context_parts = context_parts"
| "context_loop i (doc # docs) context_parts =
     context_loop (i + 1) docs
       (context_parts @ [''Source '' @ str_nat (i + 1) @ '': '' @ page_content doc])"

definition prepare_context :: "('m, 'z) document_scheme list \<Rightarrow> string" where
  "prepare_context documents = join ''\<newline>\<newline>'' (context_loop 0 documents [])"

definition mock_llm_response :: "string \<Rightarrow> string \<Rightarrow> string" where
  "mock_llm_response context question =
     ''Based on the provided context, here's what I found regarding your question about \"''
     @ question @ ''\":\<newline>\<newline>''
     @ take 200 context @ ''...\<newline>\<newline>''
     @ ''Please note: This is a mock response. For production use, please configure OpenAI API key or install Ollama with a language model.\<newline>\<newline>''
     @ ''Key points from the context:\<newline>''
     @ ''- Information is available in the compliance documents\<newline>''
     @ ''- For detailed advice, please consult with a qualified CA\<newline>''
     @ ''- Always verify current rates and deadlines with official sources''"

text \<open>\<^verbatim>\<open>str.strip()\<close>: the white-space code points below 256 are 9-13, 28-32, 133
  and 160.\<close>

definition is_space :: "char \<Rightarrow> bool" where
  "is_space c =
     (let n = (of_char c :: nat)
      in (9 \<le> n \<and> n \<le> 13) \<or> (28 \<le> n \<and> n \<le> 32) \<or> n = 133 \<or> n = 160)"

definition strip :: "string \<Rightarrow> string" where
  "strip s = rev (dropWhile is_space (rev (dropWhile is_space s)))"

section \<open>Performance monitor\<close>

record performance_metric =
  timestamp :: int
  cpu_percent :: rat
  memory_percent :: rat
  metric_active_queries :: int
  metric_total_queries :: int
  avg_response_time :: rat
  success_rate :: rat

record monitor =
  metrics_history :: "performance_metric list"
  active_queries :: int
  total_queries :: int
  failed_queries :: int
  response_times :: "rat list"
  start_time :: int
  monitoring :: bool

text \<open>\<^verbatim>\<open>PerformanceMonitor.__init__\<close>, with the reading of \<^verbatim>\<open>datetime.now()\<close>.\<close>

definition new_monitor :: "int \<Rightarrow> monitor" where
  "new_monitor now =
     \<lparr>metrics_history = [], active_queries = 0, total_queries = 0, failed_queries = 0,
      response_times = [], start_time = now, monitoring = True\<rparr>"

text \<open>The slice \<^verbatim>\<open>xs[-n:]\<close> for a positive \<open>n\<close>: the last \<open>n\<close> elements, or all of
  \<open>xs\<close> when it is shorter.\<close>

definition last_n :: "nat \<Rightarrow> 'a list \<Rightarrow> 'a list" where
  "last_n n xs = drop (length xs - n) xs"

text \<open>The two derived figures, written out twice in the source (in the sampler and
  in the snapshot): the mean of the last ten response times and the success rate, each
  with its denominator guarded by \<^verbatim>\<open>max(..., 1)\<close>.\<close>

definition mean_last_10 :: "rat list \<Rightarrow> rat" where
  "mean_last_10 rs = sum_list (last_n 10 rs) / of_nat (max (length (last_n 10 rs)) 1)"

definition success_ratio :: "int \<Rightarrow> int \<Rightarrow> rat" where
  "success_ratio n_total n_failed = of_int (n_total - n_failed) / of_int (max n_total 1)"

definition hour_us :: int where
  "hour_us = 3600000000"

text \<open>
  One pass of the \<^verbatim>\<open>while\<close> loop of \<^verbatim>\<open>_collect_metrics\<close>. \<open>now1\<close> is the reading of
  \<^verbatim>\<open>datetime.now()\<close> that stamps the metric, \<open>now2\<close> the later reading the cutoff is
  computed from; \<open>cpu\<close> and \<open>mem\<close> are the answers of \<^verbatim>\<open>psutil\<close>, which may raise. The
  second component is the number of seconds the thread sleeps afterwards.
\<close>

definition collect_metrics_pass ::
  "monitor \<Rightarrow> int \<Rightarrow> exn + rat \<Rightarrow> exn + rat \<Rightarrow> int \<Rightarrow> monitor \<times> nat" where
  "collect_metrics_pass mon now1 cpu mem now2 =
     (case cpu of
        Inl e \<Rightarrow> (mon, 60)
      | Inr c \<Rightarrow>
         (case mem of
            Inl e \<Rightarrow> (mon, 60)
          | Inr m \<Rightarrow>
             let metric = \<lparr>timestamp = now1, cpu_percent = c, memory_percent = m,
                           metric_active_queries = active_queries mon,
                           metric_total_queries = total_queries mon,
                           avg_response_time = mean_last_10 (response_times mon),
                           success_rate = success_ratio (total_queries mon) (failed_queries mon)\<rparr>;
                 history = metrics_history mon @ [metric];
                 cutoff_time = now2 - hour_us
             in (mon\<lparr>metrics_history := filter (\<lambda>m. cutoff_time < timestamp m) history\<rparr>,
                 30)))"

text \<open>\<^verbatim>\<open>start_query\<close> returns the reading \<open>now\<close> of \<^verbatim>\<open>time.time()\<close>.\<close>

definition start_query :: "monitor \<Rightarrow> rat \<Rightarrow> monitor \<times> rat" where
  "start_query mon now = (mon\<lparr>active_queries := active_queries mon + 1\<rparr>, now)"

text \<open>\<^verbatim>\<open>end_query\<close>, with the reading \<open>now\<close> of \<^verbatim>\<open>time.time()\<close>.\<close>

definition end_query :: "monitor \<Rightarrow> rat \<Rightarrow> rat \<Rightarrow> bool \<Rightarrow> monitor" where
  "end_query mon start now success =
     (let mon1 = mon\<lparr>active_queries := max 0 (active_queries mon - 1)\<rparr>;
          mon2 = mon1\<lparr>total_queries := total_queries mon1 + 1\<rparr>;
          response_time = now - start;
          mon3 = mon2\<lparr>response_times := response_times mon2 @ [response_time]\<rparr>;
          mon4 = (if \<not> success then mon3\<lparr>failed_queries := failed_queries mon3 + 1\<rparr>
                  else mon3)
      in if 100 < length (response_times mon4)
         then mon4\<lparr>response_times := last_n 100 (response_times mon4)\<rparr>
         else mon4)"

definition stop_monitoring :: "monitor \<Rightarrow> monitor" where
  "stop_monitoring mon = mon\<lparr>monitoring := False\<rparr>"

text \<open>
  The snapshot of \<^verbatim>\<open>get_current_stats\<close>. \<open>now_dt\<close> is the reading of
  \<^verbatim>\<open>datetime.now()\<close>; \<open>clock i\<close> is the reading of \<^verbatim>\<open>time.time()\<close> taken for the
  \<open>i\<close>-th element of the comprehension. The entries of the dictionary are evaluated
  in order, so a fault of \<^verbatim>\<open>psutil\<close> leaves the call without a snapshot. The entry
  \<^verbatim>\<open>uptime_formatted\<close>, a textual rendering of the same uptime, is left out.
\<close>

record stats =
  uptime_seconds :: rat
  stats_total_queries :: int
  stats_failed_queries :: int
  stats_success_rate :: rat
  stats_active_queries :: int
  stats_avg_response_time :: rat
  stats_cpu_percent :: rat
  stats_memory_percent :: rat
  queries_per_minute :: nat

definition get_current_stats ::
  "monitor \<Rightarrow> int \<Rightarrow> exn + rat \<Rightarrow> exn + rat \<Rightarrow> (nat \<Rightarrow> rat) \<Rightarrow> exn + stats" where
  "get_current_stats mon now_dt cpu mem clock =
     (let uptime = now_dt - start_time mon
      in case cpu of
           Inl e \<Rightarrow> Inl e
         | Inr c \<Rightarrow>
            (case mem of
               Inl e \<Rightarrow> Inl e
             | Inr m \<Rightarrow>
                Inr \<lparr>uptime_seconds = of_int uptime / 1000000,
                     stats_total_queries = total_queries mon,
                     stats_failed_queries = failed_queries mon,
                     stats_success_rate = success_ratio (total_queries mon) (failed_queries mon),
                     stats_active_queries = active_queries mon,
                     stats_avg_response_time = mean_last_10 (response_times mon),
                     stats_cpu_percent = c,
                     stats_memory_percent = m,
                     queries_per_minute =
                       (if response_times mon \<noteq> []
                        then length (filter (\<lambda>(i, t). clock i - t < 60)
                                       (enumerate 0 (response_times mon)))
                        else 0)\<rparr>))"

text \<open>\<^verbatim>\<open>get_performance_history\<close>: the last twenty samples.\<close>

definition get_performance_history :: "monitor \<Rightarrow> performance_metric list" where
  "get_performance_history mon = last_n 20 (metrics_history mon)"

subsection \<open>Runs of the monitor\<close>

text \<open>
  The operations that reach the monitor, with the clock readings and host answers they
  consume: a query handler entering and leaving, one pass of the sampler thread, and
  the request to stop it. The sampler loop tests \<^verbatim>\<open>self.monitoring\<close> before every
  pass, so a pass after \<^verbatim>\<open>stop_monitoring\<close> does nothing.
\<close>

datatype monitor_op =
    StartQuery rat
  | EndQuery rat rat bool
  | SamplerPass int "exn + rat" "exn + rat" int
  | StopMonitoring

fun apply_op :: "monitor_op \<Rightarrow> monitor \<Rightarrow> monitor" where
  "apply_op (StartQuery now) mon = fst (start_query mon now)"
| "apply_op (EndQuery start now success) mon = end_query mon start now success"
| "apply_op (SamplerPass now1 cpu mem now2) mon =
     (if monitoring mon then fst (collect_metrics_pass mon now1 cpu mem now2) else mon)"
| "apply_op StopMonitoring mon = stop_monitoring mon"

definition run_ops :: "monitor_op list \<Rightarrow> monitor \<Rightarrow> monitor" where
  "run_ops ops mon = foldl (\<lambda>m op. apply_op op m) mon ops"

text \<open>The time of the trim performed by an operation, if it performs one.\<close>

fun trim_time :: "monitor_op \<Rightarrow> monitor \<Rightarrow> int option" where
  "trim_time (SamplerPass now1 (Inr c) (Inr m) now2) mon =
     (if monitoring mon then Some now2 else None)"
| "trim_time _ mon = None"

text \<open>
  The step relation of the monitor: \<open>reachable mon last_trim\<close> holds when \<open>mon\<close> is
  reached from a fresh monitor by some sequence of operations, and \<open>last_trim\<close> is the time of the
  most recent trim of that sequence (\<open>None\<close> before the first trim).
\<close>

inductive reachable :: "monitor \<Rightarrow> int option \<Rightarrow> bool" where
  fresh: "reachable (new_monitor now) None"
| step: "reachable mon last_trim \<Longrightarrow>
         reachable (apply_op op mon)
           (case trim_time op mon of Some t \<Rightarrow> Some t | None \<Rightarrow> last_trim)"

definition monitor_invariant :: "monitor \<Rightarrow> bool" where
  "monitor_invariant mon \<longleftrightarrow>
     0 \<le> active_queries mon \<and> failed_queries mon \<le> total_queries mon
     \<and> length (response_times mon) \<le> 100"

text \<open>The count the snapshot is meant to hold: the queries of a run whose
  \<^verbatim>\<open>end_query\<close> happened less than 60 seconds before the time \<open>now\<close> of the call.\<close>

definition completed_in_last_minute :: "monitor_op list \<Rightarrow> rat \<Rightarrow> nat" where
  "completed_in_last_minute ops now =
     length (filter (\<lambda>op. case op of EndQuery start t success \<Rightarrow> t \<le> now \<and> now - t < 60
                                    | _ \<Rightarrow> False) ops)"

section \<open>Query pipeline\<close>

text \<open>
  \<^verbatim>\<open>ComplianceRAGSystem.query\<close> works on two process-wide objects, the performance
  monitor and the logger, and on two collaborators that may raise: the vector store's
  \<^verbatim>\<open>search\<close> and the chain's \<^verbatim>\<open>run\<close>. The model threads a \<open>world\<close>: the monitor and
  the list of calls the query has made so far, in order, one entry per call statement of
  \<^verbatim>\<open>query\<close>, with the arguments the statement passes. The logger (\<^verbatim>\<open>core/logger.py\<close>) formats its arguments and hands them to
  the \<^verbatim>\<open>logging\<close> module, which does not let handler errors escape; its three methods
  are therefore calls that return. The \<^verbatim>\<open>print\<close> statements are left out. One query is
  followed from its first statement to its return without interleaving of other
  threads.
\<close>

datatype call =
    CallStartQuery
  | CallLogSystemEvent string nat
  | CallSearch string int
  | CallPrepareContext
  | CallChainRun string string
  | CallMockLlmResponse
  | CallLogError exn string
  | CallCalculateConfidence
  | CallEndQuery bool
  | CallLogQuery string rat rat nat bool

record world =
  performance_monitor :: monitor
  calls :: "call list"

text \<open>
  What one call of \<^verbatim>\<open>query\<close> meets: the kind of language model configured, the
  answers of the two collaborators, and the three readings of \<^verbatim>\<open>time.time()\<close> (inside
  \<^verbatim>\<open>start_query\<close>, when the response time of the result is computed, and inside
  \<^verbatim>\<open>end_query\<close>).
\<close>

record 'm environment =
  llm_type :: string
  search :: "string \<Rightarrow> int \<Rightarrow> exn + 'm document list"
  chain_run :: "string \<Rightarrow> string \<Rightarrow> exn + string"
  time_start :: rat
  time_result :: rat
  time_end :: rat

record 'm query_result =
  answer :: string
  sources :: "'m list"
  confidence :: rat
  response_time :: rat
  context_used :: "string option"

definition not_found_answer :: string where
  "not_found_answer =
     ''I couldn't find relevant information in the compliance documents. Please try rephrasing your question or consult with a qualified CA.''"

definition error_answer :: string where
  "error_answer =
     ''I encountered an error processing your question. Please try again or contact support.''"

definition emit :: "call \<Rightarrow> world \<Rightarrow> world" where
  "emit c w = w\<lparr>calls := calls w @ [c]\<rparr>"

text \<open>\<^verbatim>\<open>performance_monitor.end_query(start_time, success=...)\<close> on the world.\<close>

definition monitor_end_query :: "rat \<Rightarrow> rat \<Rightarrow> bool \<Rightarrow> world \<Rightarrow> world" where
  "monitor_end_query start now success w =
     emit (CallEndQuery success)
       (w\<lparr>performance_monitor := end_query (performance_monitor w) start now success\<rparr>)"

text \<open>Step 3 of \<^verbatim>\<open>query\<close>: the answer, from the mock template, from the chain, or
  from the mock template after the chain has raised.\<close>

definition generate_answer ::
  "('m, 'z) environment_scheme \<Rightarrow> string \<Rightarrow> string \<Rightarrow> world \<Rightarrow> string \<times> world" where
  "generate_answer env context question w =
     (if llm_type env = ''mock''
      then (mock_llm_response context question, emit CallMockLlmResponse w)
      else
        (case chain_run env context question of
           Inr response \<Rightarrow> (strip response, emit (CallChainRun context question) w)
         | Inl e \<Rightarrow>
            (mock_llm_response context question,
             emit CallMockLlmResponse
               (emit (CallLogError e ''LLM processing'')
                  (emit (CallChainRun context question) w)))))"

text \<open>The body of the outer \<^verbatim>\<open>try\<close>: it returns a result or raises.\<close>

definition query_body ::
  "('m, 'z) environment_scheme \<Rightarrow> string \<Rightarrow> int \<Rightarrow> rat \<Rightarrow> world
     \<Rightarrow> (exn + 'm query_result) \<times> world" where
  "query_body env question k start w =
     (let w1 = emit (CallLogSystemEvent ''query_started'' (length question)) w;
          w2 = emit (CallSearch question k) w1
      in case search env question k of
           Inl e \<Rightarrow> (Inl e, w2)
         | Inr relevant_docs \<Rightarrow>
            if relevant_docs = [] then
              let elapsed = time_result env - start;
                  result = \<lparr>answer = not_found_answer, sources = [], confidence = 0,
                            response_time = elapsed, context_used = None\<rparr>;
                  w3 = monitor_end_query start (time_end env) False w2;
                  w4 = emit (CallLogQuery question elapsed 0 0 False) w3
              in (Inr result, w4)
            else
              let context = prepare_context relevant_docs;
                  w3 = emit CallPrepareContext w2;
                  (answer_text, w4) = generate_answer env context question w3;
                  score = calculate_confidence relevant_docs question;
                  w5 = emit CallCalculateConfidence w4;
                  elapsed = time_result env - start;
                  result = \<lparr>answer = answer_text,
                            sources = map metadata relevant_docs,
                            confidence = score,
                            response_time = elapsed,
                            context_used =
                              Some (if 200 < length context then take 200 context @ ''...''
                                    else context)\<rparr>;
                  w6 = monitor_end_query start (time_end env) True w5;
                  w7 = emit (CallLogQuery question elapsed score
                               (length relevant_docs) True) w6
              in (Inr result, w7))"

text \<open>\<^verbatim>\<open>query\<close>: \<^verbatim>\<open>start_query\<close>, then the body under \<^verbatim>\<open>except Exception\<close>.\<close>

definition query ::
  "('m, 'z) environment_scheme \<Rightarrow> string \<Rightarrow> int \<Rightarrow> world
     \<Rightarrow> (exn + 'm query_result) \<times> world" where
  "query env question k w =
     (let (mon, start) = start_query (performance_monitor w) (time_start env);
          w0 = emit CallStartQuery (w\<lparr>performance_monitor := mon\<rparr>)
      in case query_body env question k start w0 of
           (Inr result, w') \<Rightarrow> (Inr result, w')
         | (Inl e, w') \<Rightarrow>
            let elapsed = time_result env - start;
                w1 = monitor_end_query start (time_end env) False w';
                w2 = emit (CallLogError e (''Query processing failed: '' @ take 50 question)) w1
            in (Inr \<lparr>answer = error_answer, sources = [], confidence = 0,
                     response_time = elapsed, context_used = None\<rparr>, w2))"

section \<open>Properties of the string operations\<close>

text \<open>\<open>str_in\<close> is the contiguous-sublist relation.\<close>

lemma str_in_iff_sublist: "str_in kw s \<longleftrightarrow> sublist kw s"
  by (induction s) (auto simp: sublist_Cons_right)

text \<open>\<open>str_nat\<close> writes the decimal digits of its argument.\<close>

lemma decimal_value_str_nat: "decimal_value (str_nat n) = n"
proof (induction n rule: str_nat.induct)
  case (1 n)
  show ?case
  proof (cases "n < 10")
    case True
    then show ?thesis
      by (subst str_nat.simps) (simp add: decimal_value_def digit_char_def)
  next
    case False
    have "n mod 10 < 10" by simp
    then have d: "(of_char (digit_char (n mod 10)) :: nat) = 48 + n mod 10"
      by (simp add: digit_char_def)
    from False 1 have "decimal_value (str_nat (n div 10)) = n div 10" by simp
    with False d show ?thesis
      by (subst str_nat.simps) (simp add: decimal_value_def)
  qed
qed

section \<open>Properties of the confidence scorer\<close>

lemma keyword_loop_count:
  "keyword_loop q d kws b =
     b + of_nat (length (filter (\<lambda>kw. str_in kw q \<and> str_in kw d) kws)) / 10"
  by (induction kws arbitrary: b) (simp_all add: field_simps)

lemma document_loop_count:
  "document_loop q docs b =
     b + of_nat (length (filter (\<lambda>(doc, kw). str_in kw q \<and> str_in kw (lower (page_content doc)))
                           (List.product docs compliance_keywords))) / 10"
proof (induction docs arbitrary: b)
  case Nil
  show ?case by simp
next
  case (Cons doc docs)
  have "filter (\<lambda>(doc', kw). str_in kw q \<and> str_in kw (lower (page_content doc')))
          (map (Pair doc) compliance_keywords)
        = map (Pair doc)
            (filter (\<lambda>kw. str_in kw q \<and> str_in kw (lower (page_content doc)))
               compliance_keywords)"
    by (simp add: filter_map comp_def)
  then show ?case
    by (simp add: Cons.IH keyword_loop_count add_divide_distrib)
qed

text \<open>Rounding to two decimals lands on a multiple of 1/100 at distance at most
  1/200.\<close>

lemma py_round2_nearest:
  "\<bar>py_round2 x - x\<bar> \<le> 1 / 200 \<and> (\<exists>n::int. py_round2 x = of_int n / 100)"
proof -
  define y where "y = x * 100"
  have f: "of_int \<lfloor>y\<rfloor> \<le> y" "y < of_int \<lfloor>y\<rfloor> + 1"
    by linarith+
  have "\<bar>of_int (round_half_even y) - y\<bar> \<le> 1 / 2"
    using f by (auto simp: round_half_even_def Let_def)
  then have "\<bar>py_round2 x - x\<bar> \<le> 1 / 200"
    by (simp add: py_round2_def y_def field_simps abs_le_iff)
  then show ?thesis
    by (auto simp: py_round2_def)
qed

text \<open>
  The unrounded score is never half-way between two multiples of 1/100: three hundred
  times the score is an integer, so one hundred times the score has fractional part 0,
  1/3 or 2/3. The score therefore keeps a distance of at least 1/600 from every rounding
  boundary, which is why the exact-rational reading of the floating-point sum yields the
  same two-decimal result, and why the tie-breaking rule of \<open>round_half_even\<close> is never
  exercised by \<open>calculate_confidence\<close>.
\<close>

lemma unrounded_score_times_300:
  "\<exists>m::int. min (min (of_nat n / 3) 1 + of_nat k / 10) (1::rat) * 300 = of_int m"
proof -
  have "min (min (of_nat n / 3) 1 + of_nat k / 10) (1::rat) * 300
        = of_int (min (min (100 * int n) 300 + 30 * int k) 300)"
    by (simp add: min_def field_simps)
  then show ?thesis by blast
qed

lemma unrounded_score_never_tie:
  "min (min (of_nat n / 3) 1 + of_nat k / 10) (1::rat) * 100 \<noteq> of_int j + 1 / 2"
proof
  assume tie: "min (min (of_nat n / 3) 1 + of_nat k / 10) (1::rat) * 100 = of_int j + 1 / 2"
  obtain m :: int
    where m: "min (min (of_nat n / 3) 1 + of_nat k / 10) (1::rat) * 300 = of_int m"
    using unrounded_score_times_300 by blast
  have "(of_int (2 * m) :: rat) = of_int (6 * j + 3)"
    using tie m by (simp add: field_simps)
  then have "2 * m = 6 * j + 3"
    by (simp only: of_int_eq_iff)
  then show False by presburger
qed




section \<open>Properties of the performance monitor\<close>

lemma length_last_n: "length (last_n n xs) = min n (length xs)"
  by (simp add: last_n_def)

text \<open>The fields after \<open>end_query\<close> and \<open>start_query\<close>, and what a sampler pass leaves
  alone.\<close>

lemma end_query_fields:
  "active_queries (end_query mon start now success) = max 0 (active_queries mon - 1)"
  "total_queries (end_query mon start now success) = total_queries mon + 1"
  "failed_queries (end_query mon start now success) =
     (if success then failed_queries mon else failed_queries mon + 1)"
  "response_times (end_query mon start now success) =
     last_n 100 (response_times mon @ [now - start])"
  "metrics_history (end_query mon start now success) = metrics_history mon"
  "start_time (end_query mon start now success) = start_time mon"
  "monitoring (end_query mon start now success) = monitoring mon"
  by (simp_all add: end_query_def Let_def last_n_def)

lemma start_query_fields:
  "active_queries (fst (start_query mon now)) = active_queries mon + 1"
  "total_queries (fst (start_query mon now)) = total_queries mon"
  "failed_queries (fst (start_query mon now)) = failed_queries mon"
  "response_times (fst (start_query mon now)) = response_times mon"
  "metrics_history (fst (start_query mon now)) = metrics_history mon"
  "monitoring (fst (start_query mon now)) = monitoring mon"
  by (simp_all add: start_query_def)

lemma collect_metrics_pass_counters:
  "active_queries (fst (collect_metrics_pass mon now1 cpu mem now2)) = active_queries mon"
  "total_queries (fst (collect_metrics_pass mon now1 cpu mem now2)) = total_queries mon"
  "failed_queries (fst (collect_metrics_pass mon now1 cpu mem now2)) = failed_queries mon"
  "response_times (fst (collect_metrics_pass mon now1 cpu mem now2)) = response_times mon"
  by (simp_all add: collect_metrics_pass_def Let_def split: sum.splits)

lemma monitor_invariant_new: "monitor_invariant (new_monitor now)"
  by (simp add: monitor_invariant_def new_monitor_def)

lemma monitor_invariant_apply_op:
  "monitor_invariant mon \<Longrightarrow> monitor_invariant (apply_op op mon)"
  by (cases op)
     (auto simp: monitor_invariant_def end_query_fields start_query_fields
                 collect_metrics_pass_counters length_last_n stop_monitoring_def)

lemma monitor_invariant_run_ops:
  "monitor_invariant mon \<Longrightarrow> monitor_invariant (run_ops ops mon)"
  unfolding run_ops_def
  by (induction ops arbitrary: mon) (simp_all add: monitor_invariant_apply_op)

lemma collect_metrics_pass_fresh:
  "s \<in> set (metrics_history (fst (collect_metrics_pass mon now1 (Inr c) (Inr m) now2)))
   \<Longrightarrow> now2 - timestamp s < hour_us"
proof -
  assume "s \<in> set (metrics_history (fst (collect_metrics_pass mon now1 (Inr c) (Inr m) now2)))"
  then have "now2 - hour_us < timestamp s"
    by (simp add: collect_metrics_pass_def Let_def del: filter_append)
  then show ?thesis by simp
qed

lemma apply_op_history_unchanged:
  "trim_time op mon = None \<Longrightarrow> metrics_history (apply_op op mon) = metrics_history mon"
  by (cases "(op, mon)" rule: trim_time.cases)
     (auto simp: end_query_fields start_query_fields stop_monitoring_def
                 collect_metrics_pass_def split: if_splits sum.splits)

lemma apply_op_history_trimmed:
  "trim_time op mon = Some t \<Longrightarrow> s \<in> set (metrics_history (apply_op op mon))
   \<Longrightarrow> t - timestamp s < hour_us"
  by (cases "(op, mon)" rule: trim_time.cases)
     (auto simp: collect_metrics_pass_fresh split: if_splits)

lemma reachable_history:
  "reachable mon last_trim \<Longrightarrow>
     (case last_trim of
        None \<Rightarrow> metrics_history mon = []
      | Some t \<Rightarrow> \<forall>s \<in> set (metrics_history mon). t - timestamp s < hour_us)"
proof (induction rule: reachable.induct)
  case (fresh now)
  show ?case by (simp add: new_monitor_def)
next
  case (step mon last_trim op)
  show ?case
  proof (cases "trim_time op mon")
    case None
    with step.IH show ?thesis
      by (simp add: apply_op_history_unchanged split: option.splits)
  next
    case (Some t)
    then show ?thesis
      by (auto dest: apply_op_history_trimmed)
  qed
qed

section \<open>Properties of context assembly and of the query pipeline\<close>

text \<open>The loop of \<open>context_loop\<close> appends one labelled part per document, numbered
  from the index it starts with.\<close>

lemma context_loop_parts:
  "context_loop i docs parts =
     parts @ map (\<lambda>j. ''Source '' @ str_nat (i + j + 1) @ '': '' @ page_content (docs ! j))
               [0..<length docs]"
proof (induction docs arbitrary: i parts)
  case Nil
  show ?case by simp
next
  case (Cons doc docs)
  show ?case
    by (simp add: Cons.IH map_upt_Suc del: upt_Suc)
qed

lemma mock_llm_response_take: "mock_llm_response (take 200 context) question = mock_llm_response context question"
  by (simp add: mock_llm_response_def)


lemma query_chain_fault:
  assumes "search env question k = Inr docs" and "docs \<noteq> []"
    and "llm_type env \<noteq> ''mock''"
    and "chain_run env (prepare_context docs) question = Inl e"
  shows "query env question k w =
    (Inr \<lparr>answer = mock_llm_response (take 200 (prepare_context docs)) question,
          sources = map metadata docs,
          confidence = calculate_confidence docs question,
          response_time = time_result env - time_start env,
          context_used =
            Some (if 200 < length (prepare_context docs)
                  then take 200 (prepare_context docs) @ ''...''
                  else prepare_context docs)\<rparr>,
     \<lparr>performance_monitor =
        end_query (fst (start_query (performance_monitor w) (time_start env)))
          (time_start env) (time_end env) True,
      calls = calls w @
        [CallStartQuery,
         CallLogSystemEvent ''query_started'' (length question),
         CallSearch question k,
         CallPrepareContext,
         CallChainRun (prepare_context docs) question,
         CallLogError e ''LLM processing'',
         CallMockLlmResponse,
         CallCalculateConfidence,
         CallEndQuery True,
         CallLogQuery question (time_result env - time_start env)
           (calculate_confidence docs question) (length docs) True]\<rparr>)"
  using assms
  by (simp add: query_def query_body_def generate_answer_def start_query_def
        monitor_end_query_def emit_def Let_def mock_llm_response_take)




section \<open>Claims about the confidence scorer\<close>

text \<open>
  Claim C1. For a non-empty list of retrieved items and any question the scorer returns
  \<open>min (base + bonus) 1\<close> rounded to two decimals, where \<open>base = min (count / 3) 1\<close> and
  \<open>bonus\<close> is one tenth for every (item, keyword) pair whose keyword occurs in the
  lower-cased question and in the lower-cased item text; the pairs are counted without a
  cap per item or per keyword. For the empty list the scorer returns 0 whatever the
  question is.
\<close>

theorem calculate_confidence_formula:
  "calculate_confidence [] question = 0 \<and>
   (documents \<noteq> [] \<longrightarrow>
      calculate_confidence documents question =
        py_round2 (min (min (of_nat (length documents) / 3) 1
                        + (1 / 10) * of_nat (length (matching_pairs documents question))) 1))"
  by (simp add: calculate_confidence_def matching_pairs_def document_loop_count Let_def)

theorem calculate_confidence_formula_witness:
  "[\<lparr>page_content = ''GST return filing is due monthly'', metadata = ()\<rparr>] \<noteq> [] \<and>
   calculate_confidence [\<lparr>page_content = ''GST return filing is due monthly'', metadata = ()\<rparr>]
     ''What is the GST filing deadline?'' = 53 / 100"
proof -
  let ?docs = "[\<lparr>page_content = ''GST return filing is due monthly'', metadata = ()\<rparr>]"
  let ?q = "''What is the GST filing deadline?''"
  have ne: "?docs \<noteq> []"
    by (rule list.distinct(2))
  have v: "py_round2 (min (min (of_nat (length ?docs) / 3) 1
             + (1 / 10) * of_nat (length (matching_pairs ?docs ?q))) 1) = 53 / 100"
    by code_simp
  from calculate_confidence_formula [of ?q ?docs] ne
  have "calculate_confidence ?docs ?q =
          py_round2 (min (min (of_nat (length ?docs) / 3) 1
             + (1 / 10) * of_nat (length (matching_pairs ?docs ?q))) 1)"
    by blast
  from this v have "calculate_confidence ?docs ?q = 53 / 100"
    by (rule trans)
  with ne show ?thesis
    by blast
qed

section \<open>Claims about context assembly\<close>

text \<open>
  Claim C8. The context handed to generation is the list of the items' texts, the
  \<open>j\<close>-th (counting from 0) prefixed by the label \<open>Source j+1: \<close>, in the order of
  retrieval, with two line breaks (a blank line) between consecutive entries. It holds
  for every list of items, the non-empty ones in particular.
\<close>

theorem prepare_context_labels:
  "prepare_context documents =
     join ''\<newline>\<newline>''
       (map (\<lambda>j. ''Source '' @ str_nat (j + 1) @ '': '' @ page_content (documents ! j))
          [0..<length documents])"
  by (simp add: prepare_context_def context_loop_parts)

theorem prepare_context_labels_witness:
  "prepare_context [\<lparr>page_content = ''alpha'', metadata = ()\<rparr>,
                    \<lparr>page_content = ''beta'', metadata = ()\<rparr>]
     = ''Source 1: alpha\<newline>\<newline>Source 2: beta''"
proof -
  let ?docs = "[\<lparr>page_content = ''alpha'', metadata = ()\<rparr>,
                \<lparr>page_content = ''beta'', metadata = ()\<rparr>]"
  have "join ''\<newline>\<newline>''
          (map (\<lambda>j. ''Source '' @ str_nat (j + 1) @ '': '' @ page_content (?docs ! j))
             [0..<length ?docs])
        = ''Source 1: alpha\<newline>\<newline>Source 2: beta''"
    by code_simp
  with prepare_context_labels [of ?docs] show ?thesis
    by (rule trans)
qed

section \<open>Claims about the performance monitor\<close>

text \<open>
  Claim C5. A call of \<^verbatim>\<open>end_query\<close> with a start token and a success flag decrements
  \<open>active_queries\<close> with a floor at 0, increments \<open>total_queries\<close> by one, increments
  \<open>failed_queries\<close> by one exactly when the flag is false, and appends the elapsed time
  \<open>now - start\<close> to \<open>response_times\<close>; what is evicted is a prefix of the extended
  sequence (the oldest entries), of just the length by which it exceeds 100, so that at
  most 100 entries remain.
\<close>

theorem end_query_effect:
  "active_queries (end_query mon start now success) = max 0 (active_queries mon - 1)
   \<and> total_queries (end_query mon start now success) = total_queries mon + 1
   \<and> (failed_queries (end_query mon start now success) = failed_queries mon + 1
        \<longleftrightarrow> \<not> success)
   \<and> (success \<longrightarrow> failed_queries (end_query mon start now success) = failed_queries mon)
   \<and> (\<exists>evicted. response_times mon @ [now - start]
                    = evicted @ response_times (end_query mon start now success)
                  \<and> length evicted = length (response_times mon) + 1 - 100)
   \<and> length (response_times (end_query mon start now success))
       = min 100 (length (response_times mon) + 1)"
proof -
  have "\<exists>evicted. response_times mon @ [now - start]
                    = evicted @ response_times (end_query mon start now success)
                  \<and> length evicted = length (response_times mon) + 1 - 100"
    unfolding end_query_fields last_n_def
    by (rule exI [of _ "take (length (response_times mon) + 1 - 100) (response_times mon @ [now - start])"])
       simp
  then show ?thesis
    by (simp add: end_query_fields length_last_n)
qed

theorem end_query_effect_witness:
  "failed_queries (end_query ((new_monitor 0)\<lparr>response_times := replicate 100 1\<rparr>) 5 7 True) = 0
   \<and> active_queries (end_query ((new_monitor 0)\<lparr>response_times := replicate 100 1\<rparr>) 5 7 True) = 0
   \<and> total_queries (end_query ((new_monitor 0)\<lparr>response_times := replicate 100 1\<rparr>) 5 7 True) = 1
   \<and> length (response_times
         (end_query ((new_monitor 0)\<lparr>response_times := replicate 100 1\<rparr>) 5 7 True)) = 100"
  using end_query_effect [of "(new_monitor 0)\<lparr>response_times := replicate 100 1\<rparr>" 5 7 True]
  by (simp add: new_monitor_def)

text \<open>
  Claim C6. Every sequence of monitor operations run from a fresh monitor ends in a
  state with \<open>0 \<le> active_queries\<close>, \<open>failed_queries \<le> total_queries\<close> and at most
  100 response times. The sequences range over query starts and ends with any success
  flags, and over sampler passes and the stop request as well.
\<close>

theorem monitor_invariant_every_run:
  "monitor_invariant (run_ops ops (new_monitor now))"
  by (rule monitor_invariant_run_ops [OF monitor_invariant_new])

theorem monitor_invariant_every_run_witness:
  "monitor_invariant
     (run_ops [EndQuery 1 2 False, StartQuery 3, EndQuery 3 4 True] (new_monitor 0))
   \<and> active_queries
        (run_ops [EndQuery 1 2 False, StartQuery 3, EndQuery 3 4 True] (new_monitor 0)) = 0
   \<and> total_queries
        (run_ops [EndQuery 1 2 False, StartQuery 3, EndQuery 3 4 True] (new_monitor 0)) = 2"
  using monitor_invariant_every_run
          [of "[EndQuery 1 2 False, StartQuery 3, EndQuery 3 4 True]" 0]
  by (simp add: run_ops_def end_query_fields start_query_fields new_monitor_def)

text \<open>
  Claim C7. The snapshot of \<^verbatim>\<open>get_current_stats\<close> is said to hold the number of
  queries completed in the 60 seconds before the call. The run below starts one query
  at 1700000000 s and ends it half a second later; the snapshot is taken at
  1700000001 s. One query was completed in the last minute, yet the entry
  \<open>queries_per_minute\<close> is 0: the comprehension compares the clock with the stored
  response times, which are durations and not completion times.
\<close>

theorem queries_per_minute_miscount:
  "map_sum id queries_per_minute
     (get_current_stats
        (run_ops [StartQuery 1700000000, EndQuery 1700000000 (3400000001 / 2) True]
           (new_monitor 1699999000000000))
        1700000001000000 (Inr 5) (Inr 40) (\<lambda>i. 1700000001)) = Inr 0
   \<and> completed_in_last_minute
        [StartQuery 1700000000, EndQuery 1700000000 (3400000001 / 2) True] 1700000001 = 1"
  by (simp add: get_current_stats_def run_ops_def end_query_fields start_query_fields
        new_monitor_def last_n_def completed_in_last_minute_def enumerate_eq_zip)

text \<open>
  Claim C9. After a sampler pass that appends a sample and trims, every sample left in
  \<open>metrics_history\<close> is less than one hour older than the time \<open>now2\<close> of that trim;
  and in every reachable state of the monitor whose most recent trim happened at time
  \<open>t\<close>, every sample of \<open>metrics_history\<close> is less than one hour older than \<open>t\<close>.
\<close>

theorem metrics_history_within_hour:
  "(\<forall>s \<in> set (metrics_history (fst (collect_metrics_pass mon now1 (Inr c) (Inr m) now2))).
       now2 - timestamp s < hour_us)
   \<and> (reachable mon' (Some t) \<longrightarrow>
        (\<forall>s \<in> set (metrics_history mon'). t - timestamp s < hour_us))"
  using reachable_history [of mon' "Some t"]
  by (auto dest: collect_metrics_pass_fresh)

theorem metrics_history_within_hour_witness:
  "reachable
     (apply_op (SamplerPass (2 * hour_us) (Inr 5) (Inr 40) (2 * hour_us + 1))
        (apply_op (SamplerPass 0 (Inr 4) (Inr 39) 1) (new_monitor 0)))
     (Some (2 * hour_us + 1))
   \<and> map timestamp (metrics_history
         (apply_op (SamplerPass (2 * hour_us) (Inr 5) (Inr 40) (2 * hour_us + 1))
            (apply_op (SamplerPass 0 (Inr 4) (Inr 39) 1) (new_monitor 0))))
       = [2 * hour_us]
   \<and> 2 * hour_us + 1
       - timestamp (hd (metrics_history
           (apply_op (SamplerPass (2 * hour_us) (Inr 5) (Inr 40) (2 * hour_us + 1))
              (apply_op (SamplerPass 0 (Inr 4) (Inr 39) 1) (new_monitor 0)))))
       < hour_us"
proof -
  let ?m1 = "apply_op (SamplerPass 0 (Inr 4) (Inr 39) 1) (new_monitor 0)"
  let ?m2 = "apply_op (SamplerPass (2 * hour_us) (Inr 5) (Inr 40) (2 * hour_us + 1)) ?m1"
  have on: "monitoring ?m1"
    by (simp add: new_monitor_def collect_metrics_pass_def Let_def)
  have "reachable ?m1 (Some 1)"
    using reachable.step [OF reachable.fresh, of "SamplerPass 0 (Inr 4) (Inr 39) 1" 0]
    by (simp add: new_monitor_def)
  from reachable.step [OF this, of "SamplerPass (2 * hour_us) (Inr 5) (Inr 40) (2 * hour_us + 1)"]
  have r: "reachable ?m2 (Some (2 * hour_us + 1))"
    using on by simp
  have h: "map timestamp (metrics_history ?m2) = [2 * hour_us]"
    by (simp add: new_monitor_def collect_metrics_pass_def Let_def hour_us_def)
  then have "metrics_history ?m2 \<noteq> []"
    by auto
  then have "hd (metrics_history ?m2) \<in> set (metrics_history ?m2)"
    by (rule hd_in_set)
  with metrics_history_within_hour [of _ _ _ _ _ ?m2 "2 * hour_us + 1"] r h
  show ?thesis by blast
qed

section \<open>Claims about the query pipeline\<close>



text \<open>
  Claim C3. When retrieval returns at least one item and the chain raises, \<^verbatim>\<open>query\<close>
  still succeeds. The answer is the fixed text of \<^verbatim>\<open>_mock_llm_response\<close>, written out
  below: its opening sentence quoting the question, the first 200 characters of the
  assembled context followed by an ellipsis, the note and the three key points; it is
  never empty. The confidence is the scorer's value for the retrieved items, the
  sources are the items' metadata in order, and the monitor is told \<^verbatim>\<open>end_query\<close>
  with \<open>success = True\<close>. The \<^verbatim>\<open>print\<close> of the error message between the fault and
  the fallback is taken to return.
\<close>

theorem query_generation_fault:
  assumes "search env question k = Inr docs" and "docs \<noteq> []"
    and "llm_type env \<noteq> ''mock''"
    and "chain_run env (prepare_context docs) question = Inl e"
  shows "query env question k w =
    (Inr \<lparr>answer =
            ''Based on the provided context, here's what I found regarding your question about \"''
            @ question @ ''\":\<newline>\<newline>''
            @ take 200 (prepare_context docs) @ ''...\<newline>\<newline>''
            @ ''Please note: This is a mock response. For production use, please configure OpenAI API key or install Ollama with a language model.\<newline>\<newline>''
            @ ''Key points from the context:\<newline>''
            @ ''- Information is available in the compliance documents\<newline>''
            @ ''- For detailed advice, please consult with a qualified CA\<newline>''
            @ ''- Always verify current rates and deadlines with official sources'',
          sources = map metadata docs,
          confidence = calculate_confidence docs question,
          response_time = time_result env - time_start env,
          context_used =
            Some (if 200 < length (prepare_context docs)
                  then take 200 (prepare_context docs) @ ''...''
                  else prepare_context docs)\<rparr>,
     \<lparr>performance_monitor =
        end_query (fst (start_query (performance_monitor w) (time_start env)))
          (time_start env) (time_end env) True,
      calls = calls w @
        [CallStartQuery,
         CallLogSystemEvent ''query_started'' (length question),
         CallSearch question k,
         CallPrepareContext,
         CallChainRun (prepare_context docs) question,
         CallLogError e ''LLM processing'',
         CallMockLlmResponse,
         CallCalculateConfidence,
         CallEndQuery True,
         CallLogQuery question (time_result env - time_start env)
           (calculate_confidence docs question) (length docs) True]\<rparr>)
    \<and> answer (projr (fst (query env question k w))) \<noteq> []"
  using query_chain_fault [OF assms, of w]
  by (simp add: mock_llm_response_def)

theorem query_generation_fault_witness:
  "search \<lparr>llm_type = ''ollama'',
          search = (\<lambda>q n. Inr [\<lparr>page_content = ''GST return filing'', metadata = ''gst.txt''\<rparr>]),
          chain_run = (\<lambda>c q. Inl (Exception ''connection refused'')),
          time_start = 100, time_result = 101, time_end = 102\<rparr>
     ''What is the GST rate?'' 3
     = Inr [\<lparr>page_content = ''GST return filing'', metadata = ''gst.txt''\<rparr>]
   \<and> [\<lparr>page_content = ''GST return filing'', metadata = ''gst.txt''\<rparr>] \<noteq> []
   \<and> ''ollama'' \<noteq> ''mock''
   \<and> chain_run \<lparr>llm_type = ''ollama'',
          search = (\<lambda>q n. Inr [\<lparr>page_content = ''GST return filing'', metadata = ''gst.txt''\<rparr>]),
          chain_run = (\<lambda>c q. Inl (Exception ''connection refused'')),
          time_start = 100, time_result = 101, time_end = 102\<rparr>
         (prepare_context [\<lparr>page_content = ''GST return filing'', metadata = ''gst.txt''\<rparr>])
         ''What is the GST rate?'' = Inl (Exception ''connection refused'')
   \<and> fst (query \<lparr>llm_type = ''ollama'',
          search = (\<lambda>q n. Inr [\<lparr>page_content = ''GST return filing'', metadata = ''gst.txt''\<rparr>]),
          chain_run = (\<lambda>c q. Inl (Exception ''connection refused'')),
          time_start = 100, time_result = 101, time_end = 102\<rparr>
         ''What is the GST rate?'' 3
         \<lparr>performance_monitor = new_monitor 0, calls = []\<rparr>)
       = Inr \<lparr>answer =
                ''Based on the provided context, here's what I found regarding your question about \"What is the GST rate?\":\<newline>\<newline>Source 1: GST return filing...\<newline>\<newline>Please note: This is a mock response. For production use, please configure OpenAI API key or install Ollama with a language model.\<newline>\<newline>Key points from the context:\<newline>- Information is available in the compliance documents\<newline>- For detailed advice, please consult with a qualified CA\<newline>- Always verify current rates and deadlines with official sources'',
              sources = [''gst.txt''],
              confidence = 43 / 100,
              response_time = 1,
              context_used = Some ''Source 1: GST return filing''\<rparr>
   \<and> snd (query \<lparr>llm_type = ''ollama'',
          search = (\<lambda>q n. Inr [\<lparr>page_content = ''GST return filing'', metadata = ''gst.txt''\<rparr>]),
          chain_run = (\<lambda>c q. Inl (Exception ''connection refused'')),
          time_start = 100, time_result = 101, time_end = 102\<rparr>
         ''What is the GST rate?'' 3
         \<lparr>performance_monitor = new_monitor 0, calls = []\<rparr>)
       = \<lparr>performance_monitor =
            \<lparr>metrics_history = [], active_queries = 0, total_queries = 1, failed_queries = 0,
             response_times = [2], start_time = 0, monitoring = True\<rparr>,
          calls =
            [CallStartQuery,
             CallLogSystemEvent ''query_started'' 21,
             CallSearch ''What is the GST rate?'' 3,
             CallPrepareContext,
             CallChainRun ''Source 1: GST return filing'' ''What is the GST rate?'',
             CallLogError (Exception ''connection refused'') ''LLM processing'',
             CallMockLlmResponse,
             CallCalculateConfidence,
             CallEndQuery True,
             CallLogQuery ''What is the GST rate?'' 1 (43 / 100) 1 True]\<rparr>"
proof -
  let ?docs = "[\<lparr>page_content = ''GST return filing'', metadata = ''gst.txt''\<rparr>]"
  have c: "prepare_context ?docs = ''Source 1: GST return filing''"
    by code_simp
  have s: "calculate_confidence ?docs ''What is the GST rate?'' = 43 / 100"
    by code_simp
  have m: "end_query (fst (start_query (new_monitor 0) 100)) 100 102 True
           = \<lparr>metrics_history = [], active_queries = 0, total_queries = 1, failed_queries = 0,
              response_times = [2], start_time = 0, monitoring = True\<rparr>"
    by (simp add: end_query_def start_query_def new_monitor_def Let_def)
  from query_generation_fault
          [of "\<lparr>llm_type = ''ollama'',
          search = (\<lambda>q n. Inr [\<lparr>page_content = ''GST return filing'', metadata = ''gst.txt''\<rparr>]),
          chain_run = (\<lambda>c q. Inl (Exception ''connection refused'')),
          time_start = 100, time_result = 101, time_end = 102\<rparr>"
              "''What is the GST rate?''" 3 ?docs
              "Exception ''connection refused''"
              "\<lparr>performance_monitor = new_monitor 0, calls = []\<rparr>"]
  show ?thesis
    by (simp add: c s m)
qed



end
